theory Spec2Isabelle
  imports Complex_Main
begin

section \<open>Session state and the role gate (auth.py)\<close>

text \<open>
  Streamlit's \<open>st.session_state\<close> is a dictionary from keys to Python values. The values
  the application stores there are booleans, strings and \<open>None\<close>.
\<close>

datatype pyval = PyNone | PyBool bool | PyStr string

type_synonym session_state = "string \<rightharpoonup> pyval"

text \<open>Python's truth value of a stored value, as \<open>and\<close>, \<open>if\<close> and \<open>not\<close> read it.\<close>

fun truthy :: "pyval \<Rightarrow> bool" where
  "truthy PyNone = False"
| "truthy (PyBool b) = b"
| "truthy (PyStr s) = (s \<noteq> [])"

text \<open>
  \<^verbatim>\<open>return 'authenticated' in st.session_state and st.session_state.authenticated\<close>
\<close>

definition check_authentication :: "session_state \<Rightarrow> bool" where
  "check_authentication s =
     (case s ''authenticated'' of None \<Rightarrow> False | Some v \<Rightarrow> truthy v)"

text \<open>\<^verbatim>\<open>st.session_state.get('user_role', None)\<close> and the same for the user name.\<close>

definition get_user_role :: "session_state \<Rightarrow> pyval" where
  "get_user_role s = (case s ''user_role'' of None \<Rightarrow> PyNone | Some v \<Rightarrow> v)"

definition get_username :: "session_state \<Rightarrow> pyval" where
  "get_username s = (case s ''username'' of None \<Rightarrow> PyNone | Some v \<Rightarrow> v)"

text \<open>
  \<open>user_role in allowed_roles\<close>, where \<open>allowed_roles\<close> is a list of strings: only a
  string can be equal to one of its elements.
\<close>

fun role_in :: "pyval \<Rightarrow> string list \<Rightarrow> bool" where
  "role_in (PyStr r) allowed = (r \<in> set allowed)"
| "role_in v allowed = False"

text \<open>\<open>sep.join(xs)\<close> of Python.\<close>

fun join :: "string \<Rightarrow> string list \<Rightarrow> string" where
  "join sep [] = []"
| "join sep [x] = x"
| "join sep (x # y # ys) = x @ sep @ join sep (y # ys)"

text \<open>
  The two ways the gate refuses, and the text \<open>st.error\<close> shows for each. The texts are
  the source's, in UTF-8: \<open>0xC3 0xAA\<close> is e circumflex, \<open>0xC3 0xA9\<close> e acute,
  \<open>0xC3 0xA8\<close> e grave, \<open>0xC3 0xA0\<close> a grave, \<open>0xC3 0xB4\<close> o circumflex.
\<close>

datatype gate_error = Unauthenticated | Forbidden "string list"

definition forbidden_prefix :: string where
  "forbidden_prefix =
     ''Acc'' @ [CHR 0xC3, CHR 0xA8] @ ''s refus'' @ [CHR 0xC3, CHR 0xA9] @ ''. R''
       @ [CHR 0xC3, CHR 0xB4] @ ''les autoris'' @ [CHR 0xC3, CHR 0xA9] @ ''s: ''"

fun error_message :: "gate_error \<Rightarrow> string" where
  "error_message Unauthenticated =
     ''Vous devez '' @ [CHR 0xC3, CHR 0xAA] @ ''tre connect'' @ [CHR 0xC3, CHR 0xA9]
       @ '' pour acc'' @ [CHR 0xC3, CHR 0xA9] @ ''der '' @ [CHR 0xC3, CHR 0xA0]
       @ '' cette page''"
| "error_message (Forbidden allowed) = forbidden_prefix @ join '', '' allowed"

text \<open>
  \<open>require_role(allowed_roles)(func)\<close>: the wrapper reads the ambient session, shows an
  error and returns without calling \<open>func\<close> when the gate refuses, and returns
  \<open>func\<close>'s result otherwise. The session is passed explicitly; \<open>func\<close> is the wrapped
  page, applied to the session it runs in.
\<close>

definition require_role ::
  "string list \<Rightarrow> (session_state \<Rightarrow> 'a) \<Rightarrow> session_state \<Rightarrow> gate_error + 'a" where
  "require_role allowed_roles func s =
     (if \<not> check_authentication s then Inl Unauthenticated
      else if \<not> role_in (get_user_role s) allowed_roles then Inl (Forbidden allowed_roles)
      else Inr (func s))"

text \<open>
  \<open>logout\<close>: the loop deletes each of the three keys that is present, then \<open>st.rerun()\<close>
  restarts the script. The loop is a recursion over the key list; the restart is the
  control outcome returned beside the new session state.
\<close>

datatype control = Rerun | Continue

fun delete_keys :: "string list \<Rightarrow> session_state \<Rightarrow> session_state" where
  "delete_keys [] s = s"
| "delete_keys (key # keys) s =
     delete_keys keys (if key \<in> dom s then s(key := None) else s)"

definition identity_keys :: "string list" where
  "identity_keys = [''authenticated'', ''user_role'', ''username'']"

definition logout :: "session_state \<Rightarrow> session_state \<times> control" where
  "logout s = (delete_keys identity_keys s, Rerun)"

text \<open>
  The submit branch of \<open>login_form\<close>. \<open>authenticate_user\<close> is the store's method, which
  returns the user's role or a false value; only a true value opens a session.
\<close>

definition login_submit ::
  "(string \<Rightarrow> string \<Rightarrow> pyval) \<Rightarrow> string \<Rightarrow> string \<Rightarrow> session_state
     \<Rightarrow> session_state \<times> control" where
  "login_submit authenticate_user username_in password_in s =
     (if username_in \<noteq> [] \<and> password_in \<noteq> [] then
        (let role_found = authenticate_user username_in password_in
         in if truthy role_found
            then (s(''authenticated'' \<mapsto> PyBool True, ''user_role'' \<mapsto> role_found,
                    ''username'' \<mapsto> PyStr username_in), Rerun)
            else (s, Continue))
      else (s, Continue))"

text \<open>
  The identity keys are written together by the login and deleted together by the
  logout, so a session state holds a role only while it is authenticated.
\<close>

definition identity_consistent :: "session_state \<Rightarrow> bool" where
  "identity_consistent s = (check_authentication s \<or> get_user_role s = PyNone)"

section \<open>Navigation (app.py, main)\<close>

text \<open>
  The menu \<open>main\<close> offers to each role, and the gate each page function is decorated
  with: \<open>show_dashboard\<close> and \<open>show_archives_interface\<close> carry no decorator.
\<close>

definition menu_options :: "pyval \<Rightarrow> string list" where
  "menu_options user_role =
     (if user_role = PyStr ''admin'' then
        [''Dashboard'', ''Gestion des Utilisateurs'', ''Archives'']
      else if user_role = PyStr ''biomedical'' then
        [''Dashboard'', ''Gestion Inventaire'', ''Archives'']
      else if user_role = PyStr ''sterilisation'' then
        [''Dashboard'', ''Rapports de St'' @ [CHR 0xC3, CHR 0xA9] @ ''rilisation'', ''Archives'']
      else [''Dashboard''])"

datatype page = Dashboard | AdminInterface | BiomedicalInterface
  | SterilizationInterface | ArchivesInterface

definition dispatch :: "string \<Rightarrow> page option" where
  "dispatch selected_page =
     (if selected_page = ''Dashboard'' then Some Dashboard
      else if selected_page = ''Gestion des Utilisateurs'' then Some AdminInterface
      else if selected_page = ''Gestion Inventaire'' then Some BiomedicalInterface
      else if selected_page = ''Rapports de St'' @ [CHR 0xC3, CHR 0xA9] @ ''rilisation''
        then Some SterilizationInterface
      else if selected_page = ''Archives'' then Some ArchivesInterface
      else None)"

fun page_roles :: "page \<Rightarrow> string list option" where
  "page_roles Dashboard = None"
| "page_roles AdminInterface = Some [''admin'']"
| "page_roles BiomedicalInterface = Some [''biomedical'']"
| "page_roles SterilizationInterface = Some [''sterilisation'', ''biomedical'']"
| "page_roles ArchivesInterface = None"

text \<open>Opening a page: the decorator's gate where the page has one.\<close>

definition open_page :: "page \<Rightarrow> session_state \<Rightarrow> gate_error + page" where
  "open_page p s =
     (case page_roles p of
        None \<Rightarrow> Inr p
      | Some allowed \<Rightarrow> require_role allowed (\<lambda>_. p) s)"

section \<open>Records of the store, as the pages read them\<close>

text \<open>
  A calendar date (year, month, day), ordered as Python's \<open>datetime.date\<close> is.
\<close>

type_synonym date = "nat \<times> nat \<times> nat"

fun date_le :: "date \<Rightarrow> date \<Rightarrow> bool" where
  "date_le (y1, m1, d1) (y2, m2, d2) =
     (y1 < y2 \<or> (y1 = y2 \<and> (m1 < m2 \<or> (m1 = m2 \<and> d1 \<le> d2))))"

text \<open>A row of \<open>db.get_all_endoscopes()\<close>: the columns the pages read.\<close>

record endoscope =
  endo_id :: nat
  designation :: string
  numero_serie :: string
  etat :: string
  localisation :: string

text \<open>
  A row of \<open>db.get_all_sterilisation_reports()\<close>: the columns the archive filters read,
  the date column as \<open>pd.to_datetime(...).dt.date\<close> gives it.
\<close>

record steril_report =
  report_id :: nat
  nom_operateur :: string
  col_medecin_responsable :: string
  col_etat_endoscope :: string
  col_date_desinfection :: date

text \<open>A row of \<open>db.get_all_users()\<close>.\<close>

record user =
  user_id :: nat
  username :: string
  role :: string

text \<open>
  What a call into \<open>DatabaseManager\<close> does to the caller: it returns a value or raises.
  The class is not part of these sources, so each of its methods that a page calls is a
  parameter of the page's model: a function from the store and the arguments to the
  result and the store afterwards.
\<close>

datatype 'a returned = Returned 'a | Raised

section \<open>Sterilisation reports: the two submit handlers (app.py)\<close>

text \<open>
  The widgets of \<open>sterilisation_report_form\<close>. \<open>nature_text\<close> is the content of the text
  area, which exists only when the state selected is \<open>en panne\<close>.
\<close>

record steril_form =
  selected_id :: "nat option"
  medecin_responsable :: string
  date_desinfection :: date
  type_desinfection :: string
  cycle :: string
  test_etancheite :: string
  heure_debut :: string
  heure_fin :: string
  salle :: string
  type_acte :: string
  etat_endoscope :: string
  nature_text :: string

text \<open>
  \<^verbatim>\<open>nature_panne = None
  if etat_endoscope == 'en panne':
      nature_panne = st.text_area("Nature de la panne*")\<close>
\<close>

definition nature_panne :: "steril_form \<Rightarrow> string option" where
  "nature_panne f = (if etat_endoscope f = ''en panne'' then Some (nature_text f) else None)"

text \<open>Python's \<open>not x\<close> for an optional string and for an optional row id.\<close>

fun not_str :: "string option \<Rightarrow> bool" where
  "not_str None = True"
| "not_str (Some s) = (s = [])"

fun not_id :: "nat option \<Rightarrow> bool" where
  "not_id None = True"
| "not_id (Some n) = (n = 0)"

datatype validation_error = MissingRequired | MissingNaturePanne | BadTimeFormat

text \<open>The \<open>if\<close>/\<open>elif\<close> chain of the create handler; \<open>None\<close> is its \<open>else\<close> branch.\<close>

definition validate_create :: "steril_form \<Rightarrow> validation_error option" where
  "validate_create f =
     (if not_id (selected_id f) \<or> medecin_responsable f = [] \<or> salle f = []
          \<or> type_acte f = [] \<or> heure_debut f = [] \<or> heure_fin f = []
      then Some MissingRequired
      else if etat_endoscope f = ''en panne'' \<and> not_str (nature_panne f)
      then Some MissingNaturePanne
      else if CHR '':'' \<notin> set (heure_debut f) \<or> CHR '':'' \<notin> set (heure_fin f)
      then Some BadTimeFormat
      else None)"

text \<open>
  The sixteen positional arguments of \<open>db.add_sterilisation_report\<close>, in the order of the
  call: operator, endoscope name, serial number, doctor, date, type, cycle, leak test,
  start, end, the placeholder \<open>N/A\<close>, room, act, state, nature of the breakdown, author.
\<close>

datatype add_call = Add_sterilisation_report
  pyval string string string date string string string string string string string string
  string "string option" pyval

datatype submit_outcome =
    Rejected validation_error
  | Saved
  | SaveFailed
  | Uncaught
  | Caught

text \<open>
  The create handler. After the validation it looks the selected endoscope up again
  (\<open>.iloc[0]\<close> raises on an empty selection) and calls the store; a raise here is not
  caught. \<open>Saved\<close> stands for the success message followed by \<open>st.rerun()\<close>,
  \<open>SaveFailed\<close> for the error message shown when the store returns a false value.
\<close>

definition submit_create ::
  "('db \<Rightarrow> add_call \<Rightarrow> bool returned \<times> 'db) \<Rightarrow> 'db \<Rightarrow> session_state
     \<Rightarrow> endoscope list \<Rightarrow> steril_form \<Rightarrow> submit_outcome \<times> 'db" where
  "submit_create add_sterilisation_report db s endoscopes_df f =
     (case validate_create f of
        Some e \<Rightarrow> (Rejected e, db)
      | None \<Rightarrow>
          (case find (\<lambda>row. Some (endo_id row) = selected_id f) endoscopes_df of
             None \<Rightarrow> (Uncaught, db)
           | Some selected_endoscope_details \<Rightarrow>
               (case add_sterilisation_report db
                  (Add_sterilisation_report (get_username s)
                     (designation selected_endoscope_details)
                     (numero_serie selected_endoscope_details)
                     (medecin_responsable f) (date_desinfection f) (type_desinfection f)
                     (cycle f) (test_etancheite f) (heure_debut f) (heure_fin f) ''N/A''
                     (salle f) (type_acte f) (etat_endoscope f) (nature_panne f)
                     (get_username s)) of
                  (Returned True, db') \<Rightarrow> (Saved, db')
                | (Returned False, db') \<Rightarrow> (SaveFailed, db')
                | (Raised, db') \<Rightarrow> (Uncaught, db'))))"

text \<open>
  The widgets of the edit form of one report. \<open>new_date_desinfection\<close> is the text
  \<open>str(new_date_desinfection)\<close> the handler stores.
\<close>

record edit_form =
  new_nom_operateur :: string
  new_endoscope :: string
  new_numero_serie :: string
  new_medecin_responsable :: string
  new_date_desinfection :: string
  new_type_desinfection :: string
  new_cycle :: string
  new_test_etancheite :: string
  new_heure_debut :: string
  new_heure_fin :: string
  new_salle :: string
  new_type_acte :: string
  new_etat_endoscope :: string
  new_nature_text :: string

text \<open>
  \<^verbatim>\<open>new_nature_panne = st.text_area(...) if new_etat_endoscope=='en panne' else None\<close>
\<close>

definition new_nature_panne :: "edit_form \<Rightarrow> string option" where
  "new_nature_panne f =
     (if new_etat_endoscope f = ''en panne'' then Some (new_nature_text f) else None)"

definition required_fields :: "edit_form \<Rightarrow> string list" where
  "required_fields f =
     [new_nom_operateur f, new_endoscope f, new_numero_serie f, new_medecin_responsable f,
      new_salle f, new_type_acte f, new_heure_debut f, new_heure_fin f]"

definition validate_edit :: "edit_form \<Rightarrow> validation_error option" where
  "validate_edit f =
     (if \<not> list_all (\<lambda>x. x \<noteq> []) (required_fields f) then Some MissingRequired
      else if new_etat_endoscope f = ''en panne'' \<and> not_str (new_nature_panne f)
      then Some MissingNaturePanne
      else if CHR '':'' \<notin> set (new_heure_debut f) \<or> CHR '':'' \<notin> set (new_heure_fin f)
      then Some BadTimeFormat
      else None)"

text \<open>
  The dictionary \<open>update_fields\<close>, as the list of its items in the order written;
  \<open>procedure_medicale\<close> is the value \<open>report.get('procedure_medicale', 'N/A')\<close> read from
  the report being edited.
\<close>

definition opt_str :: "string option \<Rightarrow> pyval" where
  "opt_str x = (case x of None \<Rightarrow> PyNone | Some s \<Rightarrow> PyStr s)"

definition update_fields :: "pyval \<Rightarrow> edit_form \<Rightarrow> (string \<times> pyval) list" where
  "update_fields procedure_medicale f =
     [(''nom_operateur'', PyStr (new_nom_operateur f)),
      (''endoscope'', PyStr (new_endoscope f)),
      (''numero_serie'', PyStr (new_numero_serie f)),
      (''medecin_responsable'', PyStr (new_medecin_responsable f)),
      (''date_desinfection'', PyStr (new_date_desinfection f)),
      (''type_desinfection'', PyStr (new_type_desinfection f)),
      (''cycle'', PyStr (new_cycle f)),
      (''test_etancheite'', PyStr (new_test_etancheite f)),
      (''heure_debut'', PyStr (new_heure_debut f)),
      (''heure_fin'', PyStr (new_heure_fin f)),
      (''salle'', PyStr (new_salle f)),
      (''type_acte'', PyStr (new_type_acte f)),
      (''etat_endoscope'', PyStr (new_etat_endoscope f)),
      (''nature_panne'', opt_str (new_nature_panne f)),
      (''procedure_medicale'', procedure_medicale)]"

text \<open>
  The edit handler, whose body stands in a \<open>try\<close>: a raise of the store is caught and
  shown. \<open>Saved\<close> stands for the success message, the removal of the edit flag from the
  session and \<open>st.rerun()\<close>.
\<close>

definition submit_edit ::
  "('db \<Rightarrow> nat \<Rightarrow> (string \<times> pyval) list \<Rightarrow> bool returned \<times> 'db) \<Rightarrow> 'db
     \<Rightarrow> nat \<Rightarrow> pyval \<Rightarrow> edit_form \<Rightarrow> submit_outcome \<times> 'db" where
  "submit_edit update_sterilisation_report db rid procedure_medicale f =
     (case validate_edit f of
        Some e \<Rightarrow> (Rejected e, db)
      | None \<Rightarrow>
          (case update_sterilisation_report db rid (update_fields procedure_medicale f) of
             (Returned True, db') \<Rightarrow> (Saved, db')
           | (Returned False, db') \<Rightarrow> (SaveFailed, db')
           | (Raised, db') \<Rightarrow> (Caught, db')))"

section \<open>Sterilisation reports: the listing of the management tab (app.py)\<close>

text \<open>
  Which of the two queries of the store the tab of the existing reports runs.
  \<open>filter_by_user\<close> is the state of the check box, which the user may set either way.
\<close>

datatype report_query = User_sterilisation_reports pyval | All_sterilisation_reports

definition listing_query :: "session_state \<Rightarrow> bool \<Rightarrow> report_query" where
  "listing_query s filter_by_user =
     (if filter_by_user \<or> get_user_role s = PyStr ''sterilisation''
      then User_sterilisation_reports (get_username s)
      else All_sterilisation_reports)"

text \<open>
  The page itself: the decorator's gate, then the first tab, which returns from the
  whole page when the inventory is empty, so that the second tab runs no query then.
\<close>

definition show_sterilization_listing ::
  "endoscope list \<Rightarrow> bool \<Rightarrow> session_state \<Rightarrow> gate_error + report_query option" where
  "show_sterilization_listing endoscopes_df filter_by_user s =
     require_role [''sterilisation'', ''biomedical'']
       (\<lambda>s. if endoscopes_df = [] then None else Some (listing_query s filter_by_user)) s"

text \<open>
  The session keys of the edit pattern, for a row whose id prints as \<open>rid\<close>. On the
  reports tab the button \<open>Modifier\<close> is created under one key (line 494) and the flag
  that opens the edit form is written and read under another expression (lines 495
  and 508); the inventory page has the same pattern (lines 298 to 300).
\<close>

definition steril_button_key :: "string \<Rightarrow> string" where
  "steril_button_key rid = ''edit_steril_'' @ rid"

definition steril_edit_key :: "string \<Rightarrow> string" where
  "steril_edit_key rid = ''edit_steril_'' @ rid"

definition inventory_button_key :: "string \<Rightarrow> string" where
  "inventory_button_key rid = ''edit_btn_'' @ rid"

definition inventory_edit_key :: "string \<Rightarrow> string" where
  "inventory_edit_key rid = ''edit_mode_'' @ rid"

section \<open>User management: deleting a user (app.py)\<close>

text \<open>
  The last column of a user's row. For the user named \<open>admin\<close> no button is drawn and
  a note that the admin is protected is shown; for any other user the button calls the store,
  inside a \<open>try\<close>. \<open>delete_user\<close> is the store's method.
\<close>

datatype delete_outcome = AdminProtected | UserDeleted | DeleteFailed | DeleteRaised

definition delete_user_button ::
  "('db \<Rightarrow> nat \<Rightarrow> bool returned \<times> 'db) \<Rightarrow> 'db \<Rightarrow> user \<Rightarrow> delete_outcome \<times> 'db" where
  "delete_user_button delete_user db u =
     (if username u \<noteq> ''admin'' then
        (case delete_user db (user_id u) of
           (Returned True, db') \<Rightarrow> (UserDeleted, db')
         | (Returned False, db') \<Rightarrow> (DeleteFailed, db')
         | (Raised, db') \<Rightarrow> (DeleteRaised, db'))
      else (AdminProtected, db))"

text \<open>
  The rows of the page. Each row first draws the role select box, whose
  \<open>['admin', 'biomedical', 'sterilisation'].index(current_role)\<close> raises \<open>ValueError\<close>,
  outside any \<open>try\<close>, for a stored role that is none of the three; the delete column
  comes last in the row. One run of the script has at most one pressed button:
  \<open>pressed\<close> is the id of the row whose deletion is asked for, and the run is followed
  up to that row's delete column (after a successful delete the script restarts; in
  every other case the remaining rows are drawn with no button pressed).
\<close>

definition role_options :: "string list" where
  "role_options = [''admin'', ''biomedical'', ''sterilisation'']"

datatype row_outcome = ValueError | NoRow | Column delete_outcome

fun user_rows ::
  "('db \<Rightarrow> nat \<Rightarrow> bool returned \<times> 'db) \<Rightarrow> 'db \<Rightarrow> user list \<Rightarrow> nat
     \<Rightarrow> row_outcome \<times> 'db" where
  "user_rows delete_user db [] pressed = (NoRow, db)"
| "user_rows delete_user db (u # users_df) pressed =
     (if role u \<notin> set role_options then (ValueError, db)
      else if user_id u = pressed then
        (case delete_user_button delete_user db u of (out, db') \<Rightarrow> (Column out, db'))
      else user_rows delete_user db users_df pressed)"

text \<open>
  The page is decorated with \<open>require_role(['admin'])\<close> and reads its rows with
  \<open>db.get_all_users()\<close>.
\<close>

definition show_admin_interface ::
  "('db \<Rightarrow> user list) \<Rightarrow> ('db \<Rightarrow> nat \<Rightarrow> bool returned \<times> 'db) \<Rightarrow> 'db \<Rightarrow> nat
     \<Rightarrow> session_state \<Rightarrow> gate_error + (row_outcome \<times> 'db)" where
  "show_admin_interface get_all_users delete_user db pressed s =
     require_role [''admin'']
       (\<lambda>_. user_rows delete_user db (get_all_users db) pressed) s"

text \<open>The store after the request: untouched when the gate refused.\<close>

definition store_after :: "'db \<Rightarrow> gate_error + ('a \<times> 'db) \<Rightarrow> 'db" where
  "store_after db r = (case r of Inl e \<Rightarrow> db | Inr (out, db') \<Rightarrow> db')"

section \<open>Archives: the filters (app.py)\<close>

text \<open>
  Each filter line is \<open>if xs: df = df[df[col].isin(xs)]\<close>: an empty selection leaves the
  frame as it is, and a mask keeps the rows in their order. A date bound that was not
  chosen is \<open>None\<close>.
\<close>

definition archive_steril_filter ::
  "string list \<Rightarrow> string list \<Rightarrow> string list \<Rightarrow> date option \<Rightarrow> date option
     \<Rightarrow> steril_report list \<Rightarrow> steril_report list" where
  "archive_steril_filter operators medecins states start_date end_date steril_reports =
     (let f1 = (if operators \<noteq> []
                then filter (\<lambda>r. nom_operateur r \<in> set operators) steril_reports
                else steril_reports);
          f2 = (if medecins \<noteq> []
                then filter (\<lambda>r. col_medecin_responsable r \<in> set medecins) f1 else f1);
          f3 = (if states \<noteq> []
                then filter (\<lambda>r. col_etat_endoscope r \<in> set states) f2 else f2);
          f4 = (case start_date of
                  Some d \<Rightarrow> filter (\<lambda>r. date_le d (col_date_desinfection r)) f3
                | None \<Rightarrow> f3);
          f5 = (case end_date of
                  Some d \<Rightarrow> filter (\<lambda>r. date_le (col_date_desinfection r) d) f4
                | None \<Rightarrow> f4)
      in f5)"

definition archive_inventory_filter ::
  "string list \<Rightarrow> string list \<Rightarrow> endoscope list \<Rightarrow> endoscope list" where
  "archive_inventory_filter inv_states inv_locs inventory_df =
     (let f1 = (if inv_states \<noteq> []
                then filter (\<lambda>r. etat r \<in> set inv_states) inventory_df else inventory_df);
          f2 = (if inv_locs \<noteq> []
                then filter (\<lambda>r. localisation r \<in> set inv_locs) f1 else f1)
      in f2)"

section \<open>Parts of the store's class that the sources do not hold\<close>

text \<open>
  Modelled from the spec: \<open>DatabaseManager.can_user_modify_sterilisation_report\<close>, which
  the management tab calls and whose file (\<open>database.py\<close>) is not among the sources. The
  spec's rule: \<open>admin\<close> and \<open>biomedical\<close> may modify any report, \<open>sterilisation\<close> only
  the reports it authored, every other role none.
\<close>

definition can_modify :: "string \<Rightarrow> string \<Rightarrow> string \<Rightarrow> bool" where
  "can_modify role_name report_owner_username acting_username =
     (if role_name = ''admin'' \<or> role_name = ''biomedical'' then True
      else if role_name = ''sterilisation'' then acting_username = report_owner_username
      else False)"

text \<open>
  Modelled from the spec: \<open>DatabaseManager.get_all_users\<close> and
  \<open>DatabaseManager.delete_user\<close>, which the user page calls and whose file
  (\<open>database.py\<close>) is not among the sources. The spec's record store: \<open>read_all\<close> gives
  the records in insertion order, and \<open>delete(id)\<close> removes the record with that id and
  succeeds, or reports that there is none. The store of users is the list of its rows.
\<close>

definition db_get_all_users :: "user list \<Rightarrow> user list" where
  "db_get_all_users db = db"

definition db_delete_user :: "user list \<Rightarrow> nat \<Rightarrow> bool returned \<times> user list" where
  "db_delete_user db uid =
     (if uid \<in> user_id ` set db
      then (Returned True, filter (\<lambda>u. user_id u \<noteq> uid) db)
      else (Returned False, db))"

text \<open>
  Modelled from the spec: \<open>DatabaseManager.get_malfunction_percentage\<close>, which the
  dashboard calls and whose file (\<open>database.py\<close>) is not among the sources. The spec's
  rule: the percentage is \<open>100 * broken_count / total_count\<close> when there is an endoscope
  and \<open>0\<close> otherwise, not rounded. The percentage is the exact quotient, a rational.
\<close>

definition get_malfunction_percentage :: "endoscope list \<Rightarrow> rat \<times> nat \<times> nat" where
  "get_malfunction_percentage store =
     (let total_count = length store;
          broken_count = length (filter (\<lambda>e. etat e = ''en panne'') store)
      in if total_count > 0
         then (100 * of_nat broken_count / of_nat total_count, broken_count, total_count)
         else (0, 0, 0))"

section \<open>Example values\<close>

text \<open>Concrete forms, sessions, users and rows, on which the properties below are run.\<close>

definition example_form :: steril_form where
  "example_form =
     \<lparr>selected_id = Some 1, medecin_responsable = ''Dr Martin'',
      date_desinfection = (2025, 6, 20), type_desinfection = ''manuel'',
      cycle = ''complet'', test_etancheite = ''ok'', heure_debut = ''14:30'',
      heure_fin = ''15:45'', salle = ''B2'', type_acte = ''coloscopie'',
      etat_endoscope = ''en panne'', nature_text = ''fuite''\<rparr>"

definition example_edit :: edit_form where
  "example_edit =
     \<lparr>new_nom_operateur = ''alice'', new_endoscope = ''Gastroscope'',
      new_numero_serie = ''S100'', new_medecin_responsable = ''Dr Martin'',
      new_date_desinfection = ''2025-06-20'', new_type_desinfection = ''manuel'',
      new_cycle = ''complet'', new_test_etancheite = ''ok'', new_heure_debut = ''14:30'',
      new_heure_fin = ''15:45'', new_salle = ''B2'', new_type_acte = ''coloscopie'',
      new_etat_endoscope = ''en panne'', new_nature_text = ''fuite''\<rparr>"

definition example_endoscope :: endoscope where
  "example_endoscope =
     \<lparr>endo_id = 1, designation = ''Gastroscope'', numero_serie = ''S100'',
      etat = ''fonctionnel'', localisation = ''stock''\<rparr>"

definition steril_session :: session_state where
  "steril_session =
     [''authenticated'' \<mapsto> PyBool True, ''user_role'' \<mapsto> PyStr ''sterilisation'',
      ''username'' \<mapsto> PyStr ''alice'']"

definition biomedical_session :: session_state where
  "biomedical_session =
     [''authenticated'' \<mapsto> PyBool True, ''user_role'' \<mapsto> PyStr ''biomedical'',
      ''username'' \<mapsto> PyStr ''bob'']"

definition admin_session :: session_state where
  "admin_session =
     [''authenticated'' \<mapsto> PyBool True, ''user_role'' \<mapsto> PyStr ''admin'',
      ''username'' \<mapsto> PyStr ''admin'']"

definition admin_user :: user where
  "admin_user = \<lparr>user_id = 1, username = ''admin'', role = ''admin''\<rparr>"

definition other_user :: user where
  "other_user = \<lparr>user_id = 2, username = ''bob'', role = ''biomedical''\<rparr>"

definition report_a :: steril_report where
  "report_a = \<lparr>report_id = 1, nom_operateur = ''alice'', col_medecin_responsable = ''Dr Martin'',
      col_etat_endoscope = ''fonctionnel'', col_date_desinfection = (2025, 6, 20)\<rparr>"

definition report_b :: steril_report where
  "report_b = \<lparr>report_id = 2, nom_operateur = ''bob'', col_medecin_responsable = ''Dr Martin'',
      col_etat_endoscope = ''en panne'', col_date_desinfection = (2025, 6, 21)\<rparr>"

definition report_c :: steril_report where
  "report_c = \<lparr>report_id = 3, nom_operateur = ''carol'', col_medecin_responsable = ''Dr Roux'',
      col_etat_endoscope = ''en panne'', col_date_desinfection = (2025, 7, 1)\<rparr>"

definition broken_endoscope :: endoscope where
  "broken_endoscope = example_endoscope\<lparr>etat := ''en panne''\<rparr>"

section \<open>Properties of the role gate\<close>

lemma delete_keys_apply:
  "delete_keys keys s k = (if k \<in> set keys then None else s k)"
  by (induction keys arbitrary: s) (auto simp: domIff)

lemma identity_consistent_kept:
  "identity_consistent Map.empty"
  "identity_consistent (fst (logout s))"
  "identity_consistent s \<Longrightarrow> identity_consistent (fst (login_submit au u p s))"
  "k \<notin> set identity_keys \<Longrightarrow> identity_consistent s \<Longrightarrow> identity_consistent (s(k := v))"
proof -
  show "identity_consistent Map.empty"
    by (simp add: identity_consistent_def get_user_role_def)
  have "delete_keys identity_keys s ''user_role'' = None"
    unfolding delete_keys_apply by (simp add: identity_keys_def)
  then show "identity_consistent (fst (logout s))"
    by (simp add: identity_consistent_def get_user_role_def logout_def)
  show "identity_consistent s \<Longrightarrow> identity_consistent (fst (login_submit au u p s))"
    by (simp add: identity_consistent_def login_submit_def Let_def check_authentication_def)
  show "k \<notin> set identity_keys \<Longrightarrow> identity_consistent s \<Longrightarrow> identity_consistent (s(k := v))"
    by (auto simp: identity_consistent_def identity_keys_def check_authentication_def
        get_user_role_def)
qed

lemma gate_iff_role:
  "identity_consistent s \<Longrightarrow>
     (\<exists>v. require_role allowed func s = Inr v) \<longleftrightarrow> role_in (get_user_role s) allowed"
  by (auto simp: identity_consistent_def require_role_def)

lemma join_contains:
  "r \<in> set xs \<Longrightarrow> \<exists>p q. join sep xs = p @ r @ q"
proof (induction sep xs rule: join.induct)
  case (1 sep)
  then show ?case by simp
next
  case (2 sep x)
  then have "join sep [x] = [] @ r @ []" by simp
  then show ?case by blast
next
  case (3 sep x y ys)
  show ?case
  proof (cases "r = x")
    case True
    then have "join sep (x # y # ys) = [] @ r @ (sep @ join sep (y # ys))" by simp
    then show ?thesis by blast
  next
    case False
    with 3 obtain p q where "join sep (y # ys) = p @ r @ q" by auto
    then have "join sep (x # y # ys) = (x @ sep @ p) @ r @ q" by simp
    then show ?thesis by blast
  qed
qed

text \<open>
  C1. For every session and every list of allowed roles, the gate lets the wrapped
  operation run exactly when the session is authenticated and its role is one of the
  allowed roles; for the session states the login and the logout produce, which hold a
  role only while authenticated, that is exactly when the session's role is one of the
  allowed roles. A session with no identity is refused as unauthenticated; an
  authenticated session whose role is not allowed is refused as forbidden, and the text
  shown is the fixed prefix followed by the allowed roles joined with a comma, so every
  allowed role occurs in it.
\<close>

theorem require_role_permits_iff:
  "((\<exists>v. require_role allowed func s = Inr v)
      \<longleftrightarrow> (check_authentication s \<and> role_in (get_user_role s) allowed))
   \<and> (check_authentication s \<and> role_in (get_user_role s) allowed
        \<longrightarrow> require_role allowed func s = Inr (func s))
   \<and> (\<not> check_authentication s \<longrightarrow> require_role allowed func s = Inl Unauthenticated)
   \<and> (check_authentication s \<and> \<not> role_in (get_user_role s) allowed
        \<longrightarrow> require_role allowed func s = Inl (Forbidden allowed))
   \<and> (identity_consistent s
        \<longrightarrow> ((\<exists>v. require_role allowed func s = Inr v)
              \<longleftrightarrow> role_in (get_user_role s) allowed))
   \<and> error_message (Forbidden allowed) = forbidden_prefix @ join '', '' allowed
   \<and> (\<forall>r \<in> set allowed. \<exists>p q. error_message (Forbidden allowed) = p @ r @ q)"
proof -
  have enum: "\<forall>r \<in> set allowed. \<exists>p q. error_message (Forbidden allowed) = p @ r @ q"
  proof
    fix r assume "r \<in> set allowed"
    then obtain p q where "join '', '' allowed = p @ r @ q"
      using join_contains by blast
    then have "error_message (Forbidden allowed) = (forbidden_prefix @ p) @ r @ q"
      by simp
    then show "\<exists>p q. error_message (Forbidden allowed) = p @ r @ q" by blast
  qed
  have gate: "identity_consistent s
      \<longrightarrow> ((\<exists>v. require_role allowed func s = Inr v)
            \<longleftrightarrow> role_in (get_user_role s) allowed)"
    by (rule impI) (rule gate_iff_role)
  have r1: "(\<exists>v. require_role allowed func s = Inr v)
        \<longleftrightarrow> (check_authentication s \<and> role_in (get_user_role s) allowed)"
    by (simp add: require_role_def)
  have r2: "check_authentication s \<and> role_in (get_user_role s) allowed
        \<longrightarrow> require_role allowed func s = Inr (func s)"
    by (simp add: require_role_def)
  have r3: "\<not> check_authentication s \<longrightarrow> require_role allowed func s = Inl Unauthenticated"
    by (simp add: require_role_def)
  have r4: "check_authentication s \<and> \<not> role_in (get_user_role s) allowed
        \<longrightarrow> require_role allowed func s = Inl (Forbidden allowed)"
    by (simp add: require_role_def)
  have msg: "error_message (Forbidden allowed) = forbidden_prefix @ join '', '' allowed"
    by simp
  show ?thesis
    by (intro conjI) (rule r1 r2 r3 r4 gate msg enum)+
qed

theorem require_role_permits_iff_witness:
  "require_role [''admin'']
      (\<lambda>_. AdminInterface)
      [''authenticated'' \<mapsto> PyBool True, ''user_role'' \<mapsto> PyStr ''admin'',
       ''username'' \<mapsto> PyStr ''admin'']
     = Inr AdminInterface
   \<and> require_role [''admin''] (\<lambda>_. AdminInterface) Map.empty = Inl Unauthenticated
   \<and> require_role [''sterilisation'', ''biomedical'']
      (\<lambda>_. SterilizationInterface)
      [''authenticated'' \<mapsto> PyBool True, ''user_role'' \<mapsto> PyStr ''admin'',
       ''username'' \<mapsto> PyStr ''admin'']
     = Inl (Forbidden [''sterilisation'', ''biomedical''])
   \<and> (\<exists>p q. error_message (Forbidden [''sterilisation'', ''biomedical''])
        = p @ ''biomedical'' @ q)"
proof -
  let ?s = "[''authenticated'' \<mapsto> PyBool True, ''user_role'' \<mapsto> PyStr ''admin'',
       ''username'' \<mapsto> PyStr ''admin'']"
  have auth: "check_authentication ?s"
    by (simp add: check_authentication_def)
  have role: "get_user_role ?s = PyStr ''admin''"
    by (simp add: get_user_role_def)
  have none: "\<not> check_authentication Map.empty"
    by (simp add: check_authentication_def)
  have a: "require_role [''admin''] (\<lambda>_. AdminInterface) ?s = Inr AdminInterface"
    using require_role_permits_iff [of "[''admin'']" "\<lambda>_. AdminInterface" ?s] auth role
    by simp
  have b: "require_role [''admin''] (\<lambda>_. AdminInterface) Map.empty = Inl Unauthenticated"
    using require_role_permits_iff [of "[''admin'']" "\<lambda>_. AdminInterface" Map.empty] none
    by simp
  have c: "require_role [''sterilisation'', ''biomedical''] (\<lambda>_. SterilizationInterface) ?s
      = Inl (Forbidden [''sterilisation'', ''biomedical''])"
    using require_role_permits_iff
      [of "[''sterilisation'', ''biomedical'']" "\<lambda>_. SterilizationInterface" ?s] auth role
    by simp
  have d: "\<exists>p q. error_message (Forbidden [''sterilisation'', ''biomedical''])
        = p @ ''biomedical'' @ q"
    using require_role_permits_iff
      [of "[''sterilisation'', ''biomedical'']" "\<lambda>_. SterilizationInterface" ?s]
    by simp
  from a b c d show ?thesis by blast
qed

lemma dispatch_simps:
  "dispatch ''Dashboard'' = Some Dashboard"
  "dispatch ''Gestion des Utilisateurs'' = Some AdminInterface"
  "dispatch ''Gestion Inventaire'' = Some BiomedicalInterface"
  "dispatch (''Rapports de St'' @ [CHR 0xC3, CHR 0xA9] @ ''rilisation'') = Some SterilizationInterface"
  "dispatch ''Archives'' = Some ArchivesInterface"
  by (simp_all add: dispatch_def)

lemma menu_options_simps:
  "menu_options (PyStr ''admin'') = [''Dashboard'', ''Gestion des Utilisateurs'', ''Archives'']"
  "menu_options (PyStr ''biomedical'') = [''Dashboard'', ''Gestion Inventaire'', ''Archives'']"
  "menu_options (PyStr ''sterilisation'') =
     [''Dashboard'', ''Rapports de St'' @ [CHR 0xC3, CHR 0xA9] @ ''rilisation'', ''Archives'']"
  by (simp_all add: menu_options_def)

lemma open_page_simps:
  "open_page Dashboard s = Inr Dashboard"
  "open_page ArchivesInterface s = Inr ArchivesInterface"
  "check_authentication s \<Longrightarrow> get_user_role s = PyStr ''admin''
     \<Longrightarrow> open_page AdminInterface s = Inr AdminInterface"
  "check_authentication s \<Longrightarrow> get_user_role s = PyStr ''biomedical''
     \<Longrightarrow> open_page BiomedicalInterface s = Inr BiomedicalInterface"
  "check_authentication s \<Longrightarrow> get_user_role s = PyStr ''sterilisation''
     \<Longrightarrow> open_page SterilizationInterface s = Inr SterilizationInterface"
  by (simp_all add: open_page_def require_role_def)

text \<open>
  Every page the menu offers to one of the three roles opens for an authenticated
  session of that role: the menu never leads a role to a gate that refuses it.
\<close>

lemma menu_pages_open:
  assumes auth: "check_authentication s"
    and role: "get_user_role s = PyStr r"
    and r: "r \<in> {''admin'', ''biomedical'', ''sterilisation''}"
    and name: "name \<in> set (menu_options (get_user_role s))"
  shows "\<exists>p. dispatch name = Some p \<and> open_page p s = Inr p"
proof -
  from r consider "r = ''admin''" | "r = ''biomedical''" | "r = ''sterilisation''"
    by blast
  then show ?thesis
  proof cases
    case 1
    with name role have "name \<in> {''Dashboard'', ''Gestion des Utilisateurs'', ''Archives''}"
      by (simp only: menu_options_simps list.set)
    with auth role 1 show ?thesis
      by (elim insertE emptyE) (simp_all only: dispatch_simps open_page_simps option.inject simp_thms ex_simps)
  next
    case 2
    with name role have "name \<in> {''Dashboard'', ''Gestion Inventaire'', ''Archives''}"
      by (simp only: menu_options_simps list.set)
    with auth role 2 show ?thesis
      by (elim insertE emptyE) (simp_all only: dispatch_simps open_page_simps option.inject simp_thms ex_simps)
  next
    case 3
    with name role have "name \<in> {''Dashboard'',
        ''Rapports de St'' @ [CHR 0xC3, CHR 0xA9] @ ''rilisation'', ''Archives''}"
      by (simp only: menu_options_simps list.set)
    with auth role 3 show ?thesis
      by (elim insertE emptyE) (simp_all only: dispatch_simps open_page_simps option.inject simp_thms ex_simps)
  qed
qed

section \<open>Properties of logout\<close>

text \<open>
  C9. Logout removes the three identity keys \<open>authenticated\<close>, \<open>user_role\<close> and
  \<open>username\<close> from the session state and leaves every other key with the value it
  had; the session is unauthenticated at once, with no role and no user name, and the
  only other effect is the restart of the script.
\<close>

theorem logout_clears_identity_only:
  "(\<forall>k. fst (logout s) k
        = (if k \<in> {''authenticated'', ''user_role'', ''username''} then None else s k))
   \<and> dom (fst (logout s)) = dom s - {''authenticated'', ''user_role'', ''username''}
   \<and> \<not> check_authentication (fst (logout s))
   \<and> get_user_role (fst (logout s)) = PyNone
   \<and> get_username (fst (logout s)) = PyNone
   \<and> snd (logout s) = Rerun"
proof -
  have keys: "set identity_keys = {''authenticated'', ''user_role'', ''username''}"
    by (simp add: identity_keys_def)
  have pt: "\<And>k. fst (logout s) k
        = (if k \<in> {''authenticated'', ''user_role'', ''username''} then None else s k)"
    unfolding logout_def fst_conv delete_keys_apply keys ..
  have d: "dom (fst (logout s)) = dom s - {''authenticated'', ''user_role'', ''username''}"
    by (auto simp: dom_def pt)
  show ?thesis
    using pt d
    by (simp add: check_authentication_def get_user_role_def get_username_def logout_def)
qed

theorem logout_clears_identity_only_witness:
  "fst (logout [''authenticated'' \<mapsto> PyBool True, ''user_role'' \<mapsto> PyStr ''biomedical'',
       ''username'' \<mapsto> PyStr ''alice'', ''edit_mode_7'' \<mapsto> PyBool True])
     = [''edit_mode_7'' \<mapsto> PyBool True]"
proof
  fix k
  let ?s = "[''authenticated'' \<mapsto> PyBool True, ''user_role'' \<mapsto> PyStr ''biomedical'',
       ''username'' \<mapsto> PyStr ''alice'', ''edit_mode_7'' \<mapsto> PyBool True]"
  have "fst (logout ?s) k
      = (if k \<in> {''authenticated'', ''user_role'', ''username''} then None else ?s k)"
    using logout_clears_identity_only [of ?s] by blast
  then show "fst (logout ?s) k = [''edit_mode_7'' \<mapsto> PyBool True] k"
    by simp
qed

section \<open>Properties of the submit handlers\<close>

lemma submit_create_rejected:
  "validate_create f = Some e \<Longrightarrow> submit_create add db s eds f = (Rejected e, db)"
  by (simp add: submit_create_def)

lemma submit_edit_rejected:
  "validate_edit g = Some e \<Longrightarrow> submit_edit upd db rid pm g = (Rejected e, db)"
  by (simp add: submit_edit_def)

lemma validate_create_None_iff:
  "validate_create f = None \<longleftrightarrow>
     (\<not> not_id (selected_id f) \<and> medecin_responsable f \<noteq> [] \<and> salle f \<noteq> []
      \<and> type_acte f \<noteq> [] \<and> heure_debut f \<noteq> [] \<and> heure_fin f \<noteq> []
      \<and> (etat_endoscope f \<noteq> ''en panne'' \<or> nature_text f \<noteq> [])
      \<and> CHR '':'' \<in> set (heure_debut f) \<and> CHR '':'' \<in> set (heure_fin f))"
  unfolding validate_create_def nature_panne_def
  by (cases "etat_endoscope f = ''en panne''") auto

lemma validate_edit_None_iff:
  "validate_edit g = None \<longleftrightarrow>
     (new_nom_operateur g \<noteq> [] \<and> new_endoscope g \<noteq> [] \<and> new_numero_serie g \<noteq> []
      \<and> new_medecin_responsable g \<noteq> [] \<and> new_salle g \<noteq> [] \<and> new_type_acte g \<noteq> []
      \<and> new_heure_debut g \<noteq> [] \<and> new_heure_fin g \<noteq> []
      \<and> (new_etat_endoscope g \<noteq> ''en panne'' \<or> new_nature_text g \<noteq> [])
      \<and> CHR '':'' \<in> set (new_heure_debut g) \<and> CHR '':'' \<in> set (new_heure_fin g))"
  unfolding validate_edit_def new_nature_panne_def required_fields_def
  by (cases "new_etat_endoscope g = ''en panne''") auto

lemma validate_create_no_colon:
  "CHR '':'' \<notin> set (heure_debut f) \<or> CHR '':'' \<notin> set (heure_fin f)
     \<Longrightarrow> \<exists>e. validate_create f = Some e"
  using validate_create_None_iff [of f] by (cases "validate_create f") auto

lemma validate_edit_no_colon:
  "CHR '':'' \<notin> set (new_heure_debut g) \<or> CHR '':'' \<notin> set (new_heure_fin g)
     \<Longrightarrow> \<exists>e. validate_edit g = Some e"
  using validate_edit_None_iff [of g] by (cases "validate_edit g") auto

lemma validate_create_no_nature:
  "etat_endoscope f = ''en panne'' \<Longrightarrow> nature_text f = []
     \<Longrightarrow> \<exists>e. validate_create f = Some e"
  using validate_create_None_iff [of f] by (cases "validate_create f") auto

lemma validate_edit_no_nature:
  "new_etat_endoscope g = ''en panne'' \<Longrightarrow> new_nature_text g = []
     \<Longrightarrow> \<exists>e. validate_edit g = Some e"
  using validate_edit_None_iff [of g] by (cases "validate_edit g") auto


text \<open>
  C5. In the create handler and in the edit handler alike, a submission whose start or
  end time holds no colon is refused with a validation error and the store is left as
  it was. The times are read in no other way: a form is accepted exactly when its
  required fields are filled, the nature of the breakdown is given where the state is
  \<open>en panne\<close>, and both times hold a colon, so any two pairs of times that hold a colon
  are treated alike, whatever hours and minutes they name.
\<close>

theorem time_format_only_colon:
  "(CHR '':'' \<notin> set (heure_debut f) \<or> CHR '':'' \<notin> set (heure_fin f)
      \<longrightarrow> (\<exists>e. submit_create add db s eds f = (Rejected e, db)))
   \<and> (CHR '':'' \<notin> set (new_heure_debut g) \<or> CHR '':'' \<notin> set (new_heure_fin g)
      \<longrightarrow> (\<exists>e. submit_edit upd db rid pm g = (Rejected e, db)))
   \<and> (validate_create f = None \<longleftrightarrow>
        (\<not> not_id (selected_id f) \<and> medecin_responsable f \<noteq> [] \<and> salle f \<noteq> []
         \<and> type_acte f \<noteq> [] \<and> heure_debut f \<noteq> [] \<and> heure_fin f \<noteq> []
         \<and> (etat_endoscope f \<noteq> ''en panne'' \<or> nature_text f \<noteq> [])
         \<and> CHR '':'' \<in> set (heure_debut f) \<and> CHR '':'' \<in> set (heure_fin f)))
   \<and> (validate_edit g = None \<longleftrightarrow>
        (new_nom_operateur g \<noteq> [] \<and> new_endoscope g \<noteq> [] \<and> new_numero_serie g \<noteq> []
         \<and> new_medecin_responsable g \<noteq> [] \<and> new_salle g \<noteq> [] \<and> new_type_acte g \<noteq> []
         \<and> new_heure_debut g \<noteq> [] \<and> new_heure_fin g \<noteq> []
         \<and> (new_etat_endoscope g \<noteq> ''en panne'' \<or> new_nature_text g \<noteq> [])
         \<and> CHR '':'' \<in> set (new_heure_debut g) \<and> CHR '':'' \<in> set (new_heure_fin g)))
   \<and> (CHR '':'' \<in> set a \<and> CHR '':'' \<in> set b \<and> CHR '':'' \<in> set a' \<and> CHR '':'' \<in> set b'
      \<longrightarrow> validate_create (f\<lparr>heure_debut := a, heure_fin := b\<rparr>)
            = validate_create (f\<lparr>heure_debut := a', heure_fin := b'\<rparr>)
        \<and> validate_edit (g\<lparr>new_heure_debut := a, new_heure_fin := b\<rparr>)
            = validate_edit (g\<lparr>new_heure_debut := a', new_heure_fin := b'\<rparr>))"
proof -
  have c1: "CHR '':'' \<notin> set (heure_debut f) \<or> CHR '':'' \<notin> set (heure_fin f)
      \<longrightarrow> (\<exists>e. submit_create add db s eds f = (Rejected e, db))"
  proof
    assume "CHR '':'' \<notin> set (heure_debut f) \<or> CHR '':'' \<notin> set (heure_fin f)"
    then obtain e where "validate_create f = Some e"
      using validate_create_no_colon by blast
    then have "submit_create add db s eds f = (Rejected e, db)"
      by (rule submit_create_rejected)
    then show "\<exists>e. submit_create add db s eds f = (Rejected e, db)" ..
  qed
  have c2: "CHR '':'' \<notin> set (new_heure_debut g) \<or> CHR '':'' \<notin> set (new_heure_fin g)
      \<longrightarrow> (\<exists>e. submit_edit upd db rid pm g = (Rejected e, db))"
  proof
    assume "CHR '':'' \<notin> set (new_heure_debut g) \<or> CHR '':'' \<notin> set (new_heure_fin g)"
    then obtain e where "validate_edit g = Some e"
      using validate_edit_no_colon by blast
    then have "submit_edit upd db rid pm g = (Rejected e, db)"
      by (rule submit_edit_rejected)
    then show "\<exists>e. submit_edit upd db rid pm g = (Rejected e, db)" ..
  qed
  have c5: "CHR '':'' \<in> set a \<and> CHR '':'' \<in> set b \<and> CHR '':'' \<in> set a' \<and> CHR '':'' \<in> set b'
      \<longrightarrow> validate_create (f\<lparr>heure_debut := a, heure_fin := b\<rparr>)
            = validate_create (f\<lparr>heure_debut := a', heure_fin := b'\<rparr>)
        \<and> validate_edit (g\<lparr>new_heure_debut := a, new_heure_fin := b\<rparr>)
            = validate_edit (g\<lparr>new_heure_debut := a', new_heure_fin := b'\<rparr>)"
    unfolding validate_create_def validate_edit_def nature_panne_def new_nature_panne_def
      required_fields_def
    by auto
  show ?thesis
    using c1 c2 c5 validate_create_None_iff [of f] validate_edit_None_iff [of g]
    by blast
qed

theorem time_format_only_colon_witness:
  "submit_create (\<lambda>db c. (Returned True, c # db)) [] Map.empty []
      (example_form\<lparr>heure_debut := ''1430''\<rparr>)
     = (Rejected BadTimeFormat, [])
   \<and> validate_create (example_form\<lparr>heure_debut := ''99:99'', heure_fin := '':''\<rparr>) = None"
proof -
  let ?f = "example_form\<lparr>heure_debut := ''1430''\<rparr>"
  let ?add = "\<lambda>(db :: add_call list) c. (Returned True, c # db)"
  have nc: "CHR '':'' \<notin> set (heure_debut ?f)"
    by (simp add: example_form_def)
  then obtain e where e: "submit_create ?add [] Map.empty [] ?f = (Rejected e, [])"
    using time_format_only_colon [of ?f ?add "[]" Map.empty "[]"] by blast
  have "submit_create ?add [] Map.empty [] ?f = (Rejected BadTimeFormat, [])"
    by (simp add: submit_create_def validate_create_def nature_panne_def example_form_def)
  moreover have "validate_create (example_form\<lparr>heure_debut := ''99:99'', heure_fin := '':''\<rparr>)
      = validate_create (example_form\<lparr>heure_debut := ''14:30'', heure_fin := ''15:45''\<rparr>)"
    using time_format_only_colon [of example_form ?add "[]" Map.empty "[]" example_edit
        "\<lambda>db rid fs. (Raised, db)" 0 PyNone "''99:99''" "'':''" "''14:30''" "''15:45''"]
    by simp
  moreover have "validate_create (example_form\<lparr>heure_debut := ''14:30'', heure_fin := ''15:45''\<rparr>)
      = None"
    by (simp add: validate_create_def nature_panne_def example_form_def)
  ultimately show ?thesis by simp
qed

lemma submit_create_accepted:
  assumes "validate_create f = None"
    and "find (\<lambda>row. Some (endo_id row) = selected_id f) eds = Some e"
  shows "submit_create add db s eds f =
     (case add db
        (Add_sterilisation_report (get_username s) (designation e) (numero_serie e)
           (medecin_responsable f) (date_desinfection f) (type_desinfection f)
           (cycle f) (test_etancheite f) (heure_debut f) (heure_fin f) ''N/A''
           (salle f) (type_acte f) (etat_endoscope f) (nature_panne f)
           (get_username s)) of
        (Returned True, db') \<Rightarrow> (Saved, db')
      | (Returned False, db') \<Rightarrow> (SaveFailed, db')
      | (Raised, db') \<Rightarrow> (Uncaught, db'))"
  using assms by (simp add: submit_create_def)

text \<open>
  The nature check of the two handlers. A submission whose state is \<open>en panne\<close> and
  whose nature of the breakdown is empty is refused with a validation error and the
  store is left as it was; with the nature filled in, the submission is never refused
  for the missing nature. A create submission with the nature filled in is handed to
  the store, with that nature, and saved when its other required fields are filled,
  both times hold a colon, the selected endoscope is in the inventory and the store's
  call returns true.
\<close>

lemma nature_check_of_handlers:
  "(etat_endoscope f = ''en panne'' \<and> nature_text f = []
      \<longrightarrow> (\<exists>e. submit_create add db s eds f = (Rejected e, db)))
   \<and> (new_etat_endoscope g = ''en panne'' \<and> new_nature_text g = []
      \<longrightarrow> (\<exists>e. submit_edit upd db rid pm g = (Rejected e, db)))
   \<and> (n \<noteq> [] \<longrightarrow>
        validate_create (f\<lparr>nature_text := n\<rparr>) \<noteq> Some MissingNaturePanne
        \<and> validate_edit (g\<lparr>new_nature_text := n\<rparr>) \<noteq> Some MissingNaturePanne)
   \<and> (etat_endoscope f = ''en panne'' \<and> n \<noteq> []
        \<and> \<not> not_id (selected_id f) \<and> medecin_responsable f \<noteq> [] \<and> salle f \<noteq> []
        \<and> type_acte f \<noteq> []
        \<and> CHR '':'' \<in> set (heure_debut f) \<and> CHR '':'' \<in> set (heure_fin f)
        \<and> find (\<lambda>row. Some (endo_id row) = selected_id f) eds = Some e
        \<and> add db
             (Add_sterilisation_report (get_username s) (designation e) (numero_serie e)
                (medecin_responsable f) (date_desinfection f) (type_desinfection f)
                (cycle f) (test_etancheite f) (heure_debut f) (heure_fin f) ''N/A''
                (salle f) (type_acte f) ''en panne'' (Some n) (get_username s))
           = (Returned True, db')
      \<longrightarrow> submit_create add db s eds (f\<lparr>nature_text := n\<rparr>) = (Saved, db'))"
proof -
  have c1: "etat_endoscope f = ''en panne'' \<and> nature_text f = []
      \<longrightarrow> (\<exists>e. submit_create add db s eds f = (Rejected e, db))"
  proof
    assume "etat_endoscope f = ''en panne'' \<and> nature_text f = []"
    then obtain e where "validate_create f = Some e"
      using validate_create_no_nature by blast
    then have "submit_create add db s eds f = (Rejected e, db)"
      by (rule submit_create_rejected)
    then show "\<exists>e. submit_create add db s eds f = (Rejected e, db)" ..
  qed
  have c2: "new_etat_endoscope g = ''en panne'' \<and> new_nature_text g = []
      \<longrightarrow> (\<exists>e. submit_edit upd db rid pm g = (Rejected e, db))"
  proof
    assume "new_etat_endoscope g = ''en panne'' \<and> new_nature_text g = []"
    then obtain e where "validate_edit g = Some e"
      using validate_edit_no_nature by blast
    then have "submit_edit upd db rid pm g = (Rejected e, db)"
      by (rule submit_edit_rejected)
    then show "\<exists>e. submit_edit upd db rid pm g = (Rejected e, db)" ..
  qed
  have c3: "n \<noteq> [] \<longrightarrow>
        validate_create (f\<lparr>nature_text := n\<rparr>) \<noteq> Some MissingNaturePanne
        \<and> validate_edit (g\<lparr>new_nature_text := n\<rparr>) \<noteq> Some MissingNaturePanne"
    by (simp add: validate_create_def validate_edit_def nature_panne_def new_nature_panne_def)
  have c4: "etat_endoscope f = ''en panne'' \<and> n \<noteq> []
        \<and> \<not> not_id (selected_id f) \<and> medecin_responsable f \<noteq> [] \<and> salle f \<noteq> []
        \<and> type_acte f \<noteq> []
        \<and> CHR '':'' \<in> set (heure_debut f) \<and> CHR '':'' \<in> set (heure_fin f)
        \<and> find (\<lambda>row. Some (endo_id row) = selected_id f) eds = Some e
        \<and> add db
             (Add_sterilisation_report (get_username s) (designation e) (numero_serie e)
                (medecin_responsable f) (date_desinfection f) (type_desinfection f)
                (cycle f) (test_etancheite f) (heure_debut f) (heure_fin f) ''N/A''
                (salle f) (type_acte f) ''en panne'' (Some n) (get_username s))
           = (Returned True, db')
      \<longrightarrow> submit_create add db s eds (f\<lparr>nature_text := n\<rparr>) = (Saved, db')"
  proof
    assume h: "etat_endoscope f = ''en panne'' \<and> n \<noteq> []
        \<and> \<not> not_id (selected_id f) \<and> medecin_responsable f \<noteq> [] \<and> salle f \<noteq> []
        \<and> type_acte f \<noteq> []
        \<and> CHR '':'' \<in> set (heure_debut f) \<and> CHR '':'' \<in> set (heure_fin f)
        \<and> find (\<lambda>row. Some (endo_id row) = selected_id f) eds = Some e
        \<and> add db
             (Add_sterilisation_report (get_username s) (designation e) (numero_serie e)
                (medecin_responsable f) (date_desinfection f) (type_desinfection f)
                (cycle f) (test_etancheite f) (heure_debut f) (heure_fin f) ''N/A''
                (salle f) (type_acte f) ''en panne'' (Some n) (get_username s))
           = (Returned True, db')"
    let ?f = "f\<lparr>nature_text := n\<rparr>"
    from h have ne: "heure_debut f \<noteq> []" "heure_fin f \<noteq> []" by auto
    with h have v: "validate_create ?f = None"
      by (simp add: validate_create_None_iff)
    from h have fd: "find (\<lambda>row. Some (endo_id row) = selected_id ?f) eds = Some e"
      by simp
    from h have np: "nature_panne ?f = Some n"
      by (simp add: nature_panne_def)
    show "submit_create add db s eds ?f = (Saved, db')"
      using h np by (simp add: submit_create_accepted [OF v fd])
  qed
  show ?thesis
    by (intro conjI) (rule c1 c2 c3 c4)+
qed


text \<open>The check on the example forms, on creation and on edit.\<close>

lemma nature_check_examples:
  "submit_create (\<lambda>db c. (Returned True, c # db)) []
      [''username'' \<mapsto> PyStr ''alice''] [example_endoscope]
      (example_form\<lparr>nature_text := []\<rparr>)
     = (Rejected MissingNaturePanne, [])
   \<and> submit_create (\<lambda>db c. (Returned True, c # db)) []
      [''username'' \<mapsto> PyStr ''alice''] [example_endoscope]
      (example_form\<lparr>nature_text := ''fuite''\<rparr>)
     = (Saved,
        [Add_sterilisation_report (PyStr ''alice'') ''Gastroscope'' ''S100'' ''Dr Martin''
           (2025, 6, 20) ''manuel'' ''complet'' ''ok'' ''14:30'' ''15:45'' ''N/A'' ''B2''
           ''coloscopie'' ''en panne'' (Some ''fuite'') (PyStr ''alice'')])
   \<and> submit_edit (\<lambda>db rid fs. (Returned True, (rid, fs) # db)) [] 7 (PyStr ''N/A'')
      (example_edit\<lparr>new_nature_text := []\<rparr>)
     = (Rejected MissingNaturePanne, [])"
proof -
  let ?add = "\<lambda>(db :: add_call list) c. (Returned True, c # db)"
  let ?upd = "\<lambda>(db :: (nat \<times> (string \<times> pyval) list) list) rid fs.
      (Returned True, (rid, fs) # db)"
  let ?s = "[''username'' \<mapsto> PyStr ''alice'']"
  let ?call = "Add_sterilisation_report (PyStr ''alice'') ''Gastroscope'' ''S100''
      ''Dr Martin'' (2025, 6, 20) ''manuel'' ''complet'' ''ok'' ''14:30'' ''15:45'' ''N/A''
      ''B2'' ''coloscopie'' ''en panne'' (Some ''fuite'') (PyStr ''alice'')"
  let ?g = "example_edit\<lparr>new_nature_text := []\<rparr>"
  have u: "get_username ?s = PyStr ''alice''"
    by (simp add: get_username_def)
  have fd: "find (\<lambda>row. Some (endo_id row) = selected_id example_form) [example_endoscope]
      = Some example_endoscope"
    by (simp add: example_form_def example_endoscope_def)
  have a: "submit_create ?add [] ?s [example_endoscope] (example_form\<lparr>nature_text := []\<rparr>)
      = (Rejected MissingNaturePanne, [])"
    by (simp add: submit_create_def validate_create_def nature_panne_def example_form_def)
  have b: "submit_create ?add [] ?s [example_endoscope]
      (example_form\<lparr>nature_text := ''fuite''\<rparr>) = (Saved, [?call])"
    using nature_check_of_handlers
      [where f = example_form and n = "''fuite''" and e = example_endoscope
        and eds = "[example_endoscope]" and s = ?s and add = ?add and db = "[]"
        and db' = "[?call]" and g = example_edit]
      u fd
    by (simp add: example_form_def example_endoscope_def)
  have ge: "new_etat_endoscope ?g = ''en panne'' \<and> new_nature_text ?g = []"
    by (simp add: example_edit_def)
  have "new_etat_endoscope ?g = ''en panne'' \<and> new_nature_text ?g = []
      \<longrightarrow> (\<exists>e. submit_edit ?upd [] 7 (PyStr ''N/A'') ?g = (Rejected e, []))"
    by (rule nature_check_of_handlers
        [where g = ?g and upd = ?upd and db = "[]" and rid = 7 and pm = "PyStr ''N/A''",
          THEN conjunct2, THEN conjunct1])
  with ge obtain e where e: "submit_edit ?upd [] 7 (PyStr ''N/A'') ?g = (Rejected e, [])"
    by blast
  have v: "validate_edit ?g = Some MissingNaturePanne"
    by (simp add: validate_edit_def required_fields_def new_nature_panne_def example_edit_def)
  from e v have c: "submit_edit ?upd [] 7 (PyStr ''N/A'') ?g = (Rejected MissingNaturePanne, [])"
    by (simp add: submit_edit_def)
  show ?thesis
    by (intro conjI) (rule a b c)+
qed

text \<open>
  On the reports tab the flag of the edit form is kept under the key of the button
  itself, where the inventory page keeps the two apart.
\<close>

lemma edit_keys_collide:
  "steril_button_key rid = steril_edit_key rid
   \<and> inventory_button_key rid \<noteq> inventory_edit_key rid"
  by (simp add: steril_button_key_def steril_edit_key_def inventory_button_key_def
      inventory_edit_key_def)

section \<open>Properties of the report listing\<close>

text \<open>
  C10. For a user whose role is \<open>sterilisation\<close> the listing only ever asks the store
  for that user's own reports, whether the check box is ticked or not (and asks nothing
  when the inventory is empty). The query for all reports is reached only with the box
  unticked and a role other than \<open>sterilisation\<close>; through the page's gate that role
  is \<open>biomedical\<close>, so it is one of \<open>admin\<close> and \<open>biomedical\<close>.
\<close>

theorem sterilisation_lists_own_reports:
  "(get_user_role s = PyStr ''sterilisation''
      \<longrightarrow> listing_query s filter_by_user = User_sterilisation_reports (get_username s))
   \<and> (check_authentication s \<and> get_user_role s = PyStr ''sterilisation''
      \<longrightarrow> show_sterilization_listing endoscopes_df filter_by_user s
            = Inr (if endoscopes_df = [] then None
                   else Some (User_sterilisation_reports (get_username s))))
   \<and> (show_sterilization_listing endoscopes_df filter_by_user s
          = Inr (Some All_sterilisation_reports)
      \<longrightarrow> \<not> filter_by_user \<and> get_user_role s = PyStr ''biomedical''
          \<and> get_user_role s \<in> {PyStr ''admin'', PyStr ''biomedical''})
   \<and> (listing_query s filter_by_user = All_sterilisation_reports
      \<longrightarrow> \<not> filter_by_user \<and> get_user_role s \<noteq> PyStr ''sterilisation'')"
proof -
  have a: "get_user_role s = PyStr ''sterilisation''
      \<longrightarrow> listing_query s filter_by_user = User_sterilisation_reports (get_username s)"
    by (simp add: listing_query_def)
  have b: "check_authentication s \<and> get_user_role s = PyStr ''sterilisation''
      \<longrightarrow> show_sterilization_listing endoscopes_df filter_by_user s
            = Inr (if endoscopes_df = [] then None
                   else Some (User_sterilisation_reports (get_username s)))"
    by (simp add: show_sterilization_listing_def require_role_def listing_query_def)
  have d: "listing_query s filter_by_user = All_sterilisation_reports
      \<longrightarrow> \<not> filter_by_user \<and> get_user_role s \<noteq> PyStr ''sterilisation''"
    by (simp add: listing_query_def split: if_splits)
  have c: "show_sterilization_listing endoscopes_df filter_by_user s
          = Inr (Some All_sterilisation_reports)
      \<longrightarrow> \<not> filter_by_user \<and> get_user_role s = PyStr ''biomedical''
          \<and> get_user_role s \<in> {PyStr ''admin'', PyStr ''biomedical''}"
  proof
    assume h: "show_sterilization_listing endoscopes_df filter_by_user s
          = Inr (Some All_sterilisation_reports)"
    then have r: "role_in (get_user_role s) [''sterilisation'', ''biomedical'']"
      and q: "listing_query s filter_by_user = All_sterilisation_reports"
      by (auto simp: show_sterilization_listing_def require_role_def split: if_splits)
    from q d have nf: "\<not> filter_by_user" and ns: "get_user_role s \<noteq> PyStr ''sterilisation''"
      by blast+
    from r ns have "get_user_role s = PyStr ''biomedical''"
      by (cases "get_user_role s") auto
    with nf show "\<not> filter_by_user \<and> get_user_role s = PyStr ''biomedical''
          \<and> get_user_role s \<in> {PyStr ''admin'', PyStr ''biomedical''}"
      by simp
  qed
  from a b c d show ?thesis by blast
qed

theorem sterilisation_lists_own_reports_witness:
  "show_sterilization_listing [example_endoscope] False steril_session
     = Inr (Some (User_sterilisation_reports (PyStr ''alice'')))
   \<and> show_sterilization_listing [example_endoscope] True steril_session
     = Inr (Some (User_sterilisation_reports (PyStr ''alice'')))"
proof -
  have auth: "check_authentication steril_session"
    by (simp add: check_authentication_def steril_session_def)
  have role: "get_user_role steril_session = PyStr ''sterilisation''"
    by (simp add: get_user_role_def steril_session_def)
  have name: "get_username steril_session = PyStr ''alice''"
    by (simp add: get_username_def steril_session_def)
  have a: "show_sterilization_listing [example_endoscope] False steril_session
     = Inr (Some (User_sterilisation_reports (PyStr ''alice'')))"
    using sterilisation_lists_own_reports
      [where s = steril_session and filter_by_user = False
        and endoscopes_df = "[example_endoscope]"] auth role name
    by simp
  have b: "show_sterilization_listing [example_endoscope] True steril_session
     = Inr (Some (User_sterilisation_reports (PyStr ''alice'')))"
    using sterilisation_lists_own_reports
      [where s = steril_session and filter_by_user = True
        and endoscopes_df = "[example_endoscope]"] auth role name
    by simp
  from a b show ?thesis ..
qed

section \<open>Properties of user deletion\<close>

lemma user_rows_store_kept:
  "\<forall>x \<in> set users_df. user_id x = pressed \<longrightarrow> username x = ''admin''
     \<Longrightarrow> snd (user_rows delete_user db users_df pressed) = db"
  by (induction users_df) (simp_all add: delete_user_button_def)

lemma user_rows_at:
  "\<forall>x \<in> set users_df. role x \<in> set role_options
     \<Longrightarrow> distinct (map user_id users_df) \<Longrightarrow> u \<in> set users_df
     \<Longrightarrow> user_rows delete_user db users_df (user_id u)
         = (case delete_user_button delete_user db u of (out, db') \<Rightarrow> (Column out, db'))"
proof (induction users_df)
  case Nil
  then show ?case by simp
next
  case (Cons x xs)
  show ?case
  proof (cases "u = x")
    case True
    with Cons.prems show ?thesis by simp
  next
    case False
    with Cons.prems have u: "u \<in> set xs" by simp
    with Cons.prems have "user_id x \<noteq> user_id u" by force
    with Cons u show ?thesis by simp
  qed
qed

lemma db_delete_user_existing:
  "u \<in> set users \<Longrightarrow> username u \<noteq> ''admin''
     \<Longrightarrow> delete_user_button db_delete_user users u
         = (UserDeleted, filter (\<lambda>x. user_id x \<noteq> user_id u) users)"
  by (simp add: delete_user_button_def db_delete_user_def)

lemma filter_removes_only:
  "distinct (map user_id users) \<Longrightarrow> u \<in> set users
     \<Longrightarrow> set (filter (\<lambda>x. user_id x \<noteq> user_id u) users) = set users - {u}"
  by (auto simp: distinct_map dest: inj_onD)

lemma gate_admin:
  "check_authentication s \<Longrightarrow> get_user_role s = PyStr ''admin''
     \<Longrightarrow> require_role [''admin''] func s = Inr (func s)"
  by (simp add: require_role_def)

lemma menu_options_other:
  "r \<noteq> PyStr ''admin'' \<Longrightarrow> r \<noteq> PyStr ''biomedical'' \<Longrightarrow> r \<noteq> PyStr ''sterilisation''
     \<Longrightarrow> menu_options r = [''Dashboard'']"
  by (simp only: menu_options_def if_False)

lemma dispatch_not_admin:
  "dispatch ''Dashboard'' \<noteq> Some AdminInterface"
  "dispatch ''Gestion Inventaire'' \<noteq> Some AdminInterface"
  "dispatch (''Rapports de St'' @ [CHR 0xC3, CHR 0xA9] @ ''rilisation'') \<noteq> Some AdminInterface"
  "dispatch ''Archives'' \<noteq> Some AdminInterface"
  by (simp_all only: dispatch_simps option.inject page.distinct not_False_eq_True)

lemma admin_page_only_for_admin:
  assumes "name \<in> set (menu_options r)" and "dispatch name = Some AdminInterface"
  shows "r = PyStr ''admin''"
proof (rule ccontr)
  assume n: "r \<noteq> PyStr ''admin''"
  consider "r = PyStr ''biomedical''" | "r = PyStr ''sterilisation''"
    | "r \<noteq> PyStr ''biomedical''" "r \<noteq> PyStr ''sterilisation''"
    by blast
  then show False
  proof cases
    case 1
    with assms(1) have "name \<in> {''Dashboard'', ''Gestion Inventaire'', ''Archives''}"
      by (simp only: menu_options_simps list.set)
    with assms(2) show False
      by (elim insertE emptyE) (simp_all only: dispatch_not_admin)
  next
    case 2
    with assms(1) have "name \<in> {''Dashboard'',
        ''Rapports de St'' @ [CHR 0xC3, CHR 0xA9] @ ''rilisation'', ''Archives''}"
      by (simp only: menu_options_simps list.set)
    with assms(2) show False
      by (elim insertE emptyE) (simp_all only: dispatch_not_admin)
  next
    case 3
    from n 3 have "menu_options r = [''Dashboard'']"
      by (rule menu_options_other)
    with assms(1) have "name = ''Dashboard''" by simp
    with assms(2) show False
      by (simp only: dispatch_not_admin)
  qed
qed


text \<open>
  C3. The delete column protects the user named \<open>admin\<close> by the username alone, with
  no regard to who asks: asking the page to delete that user never changes the store,
  whatever the session, and for an admin caller (the only role \<open>main\<close> offers the page
  to, and the only one its own gate lets in) the request ends in the protected outcome.
  Deleting any other user that exists in the store succeeds: the user is removed and
  every other user remains. The rows are user records of the store: their roles are
  among the three role names and their ids are distinct.
\<close>

theorem admin_user_protected:
  "(username u = ''admin'' \<longrightarrow> delete_user_button delete_user db u = (AdminProtected, db))
   \<and> ((\<forall>x \<in> set (get_all_users db). user_id x = pressed \<longrightarrow> username x = ''admin'')
      \<longrightarrow> store_after db (show_admin_interface get_all_users delete_user db pressed s) = db)
   \<and> (check_authentication s \<and> get_user_role s = PyStr ''admin''
        \<and> (\<forall>x \<in> set (get_all_users db). role x \<in> set role_options)
        \<and> distinct (map user_id (get_all_users db))
        \<and> u \<in> set (get_all_users db) \<and> username u = ''admin''
      \<longrightarrow> show_admin_interface get_all_users delete_user db (user_id u) s
            = Inr (Column AdminProtected, db))
   \<and> (check_authentication s \<and> get_user_role s = PyStr ''admin''
        \<and> (\<forall>x \<in> set users. role x \<in> set role_options)
        \<and> distinct (map user_id users)
        \<and> v \<in> set users \<and> username v \<noteq> ''admin''
      \<longrightarrow> show_admin_interface db_get_all_users db_delete_user users (user_id v) s
            = Inr (Column UserDeleted, filter (\<lambda>x. user_id x \<noteq> user_id v) users)
          \<and> set (filter (\<lambda>x. user_id x \<noteq> user_id v) users) = set users - {v})
   \<and> (name \<in> set (menu_options r) \<and> dispatch name = Some AdminInterface
      \<longrightarrow> r = PyStr ''admin'')"
proof -
  have c1: "username u = ''admin'' \<longrightarrow> delete_user_button delete_user db u = (AdminProtected, db)"
    by (simp add: delete_user_button_def)
  have c2: "(\<forall>x \<in> set (get_all_users db). user_id x = pressed \<longrightarrow> username x = ''admin'')
      \<longrightarrow> store_after db (show_admin_interface get_all_users delete_user db pressed s) = db"
  proof
    assume h: "\<forall>x \<in> set (get_all_users db). user_id x = pressed \<longrightarrow> username x = ''admin''"
    have k: "snd (user_rows delete_user db (get_all_users db) pressed) = db"
      using h by (rule user_rows_store_kept)
    show "store_after db (show_admin_interface get_all_users delete_user db pressed s) = db"
      using k
      by (cases "user_rows delete_user db (get_all_users db) pressed")
        (simp add: store_after_def show_admin_interface_def require_role_def)
  qed
  have c3: "check_authentication s \<and> get_user_role s = PyStr ''admin''
        \<and> (\<forall>x \<in> set (get_all_users db). role x \<in> set role_options)
        \<and> distinct (map user_id (get_all_users db))
        \<and> u \<in> set (get_all_users db) \<and> username u = ''admin''
      \<longrightarrow> show_admin_interface get_all_users delete_user db (user_id u) s
            = Inr (Column AdminProtected, db)"
  proof
    assume h: "check_authentication s \<and> get_user_role s = PyStr ''admin''
        \<and> (\<forall>x \<in> set (get_all_users db). role x \<in> set role_options)
        \<and> distinct (map user_id (get_all_users db))
        \<and> u \<in> set (get_all_users db) \<and> username u = ''admin''"
    then have "user_rows delete_user db (get_all_users db) (user_id u)
        = (case delete_user_button delete_user db u of (out, db') \<Rightarrow> (Column out, db'))"
      by (intro user_rows_at) simp_all
    with h c1 have "user_rows delete_user db (get_all_users db) (user_id u)
        = (Column AdminProtected, db)"
      by simp
    with h show "show_admin_interface get_all_users delete_user db (user_id u) s
        = Inr (Column AdminProtected, db)"
      by (simp add: show_admin_interface_def gate_admin)
  qed
  have c4: "check_authentication s \<and> get_user_role s = PyStr ''admin''
        \<and> (\<forall>x \<in> set users. role x \<in> set role_options)
        \<and> distinct (map user_id users)
        \<and> v \<in> set users \<and> username v \<noteq> ''admin''
      \<longrightarrow> show_admin_interface db_get_all_users db_delete_user users (user_id v) s
            = Inr (Column UserDeleted, filter (\<lambda>x. user_id x \<noteq> user_id v) users)
          \<and> set (filter (\<lambda>x. user_id x \<noteq> user_id v) users) = set users - {v}"
  proof
    assume h: "check_authentication s \<and> get_user_role s = PyStr ''admin''
        \<and> (\<forall>x \<in> set users. role x \<in> set role_options)
        \<and> distinct (map user_id users)
        \<and> v \<in> set users \<and> username v \<noteq> ''admin''"
    then have "user_rows db_delete_user users users (user_id v)
        = (case delete_user_button db_delete_user users v of (out, db') \<Rightarrow> (Column out, db'))"
      by (intro user_rows_at) simp_all
    with h have "user_rows db_delete_user users users (user_id v)
        = (Column UserDeleted, filter (\<lambda>x. user_id x \<noteq> user_id v) users)"
      by (simp add: db_delete_user_existing)
    with h have a: "show_admin_interface db_get_all_users db_delete_user users (user_id v) s
        = Inr (Column UserDeleted, filter (\<lambda>x. user_id x \<noteq> user_id v) users)"
      by (simp add: show_admin_interface_def gate_admin db_get_all_users_def)
    from h have b: "set (filter (\<lambda>x. user_id x \<noteq> user_id v) users) = set users - {v}"
      by (intro filter_removes_only) simp_all
    from a b show "show_admin_interface db_get_all_users db_delete_user users (user_id v) s
            = Inr (Column UserDeleted, filter (\<lambda>x. user_id x \<noteq> user_id v) users)
          \<and> set (filter (\<lambda>x. user_id x \<noteq> user_id v) users) = set users - {v}" ..
  qed
  have c5: "name \<in> set (menu_options r) \<and> dispatch name = Some AdminInterface
      \<longrightarrow> r = PyStr ''admin''"
    using admin_page_only_for_admin by blast
  show ?thesis
    by (intro conjI) (rule c1 c2 c3 c4 c5)+
qed

theorem admin_user_protected_witness:
  "show_admin_interface db_get_all_users db_delete_user [admin_user, other_user] 1
      admin_session
     = Inr (Column AdminProtected, [admin_user, other_user])
   \<and> show_admin_interface db_get_all_users db_delete_user [admin_user, other_user] 2
      admin_session
     = Inr (Column UserDeleted, [admin_user])
   \<and> store_after [admin_user, other_user]
       (show_admin_interface db_get_all_users db_delete_user [admin_user, other_user] 1
          biomedical_session)
     = [admin_user, other_user]"
proof -
  let ?db = "[admin_user, other_user]"
  have auth: "check_authentication admin_session"
    by (simp add: check_authentication_def admin_session_def)
  have rl: "get_user_role admin_session = PyStr ''admin''"
    by (simp add: get_user_role_def admin_session_def)
  have roles: "\<forall>x \<in> set ?db. role x \<in> set role_options"
    by (simp add: admin_user_def other_user_def role_options_def)
  have ids: "distinct (map user_id ?db)"
    by (simp add: admin_user_def other_user_def)
  have un: "username admin_user = ''admin''" and ua: "user_id admin_user = 1"
    by (simp_all add: admin_user_def)
  have uo: "username other_user \<noteq> ''admin''" and ub: "user_id other_user = 2"
    by (simp_all add: other_user_def)
  have only: "\<forall>x \<in> set (db_get_all_users ?db). user_id x = 1 \<longrightarrow> username x = ''admin''"
    by (simp add: db_get_all_users_def admin_user_def other_user_def)
  have flt: "filter (\<lambda>x. user_id x \<noteq> user_id other_user) ?db = [admin_user]"
    by (simp add: ua ub)
  note inst = admin_user_protected
    [where get_all_users = db_get_all_users and delete_user = db_delete_user
      and db = ?db and users = ?db and u = admin_user and v = other_user]
  have a: "show_admin_interface db_get_all_users db_delete_user ?db 1 admin_session
      = Inr (Column AdminProtected, ?db)"
    using inst [where s = admin_session, THEN conjunct2, THEN conjunct2, THEN conjunct1]
      auth rl roles ids un ua
    by (simp add: db_get_all_users_def)
  have b: "show_admin_interface db_get_all_users db_delete_user ?db 2 admin_session
      = Inr (Column UserDeleted, [admin_user])"
    using inst [where s = admin_session, THEN conjunct2, THEN conjunct2, THEN conjunct2,
        THEN conjunct1] auth rl roles ids uo ub flt
    by simp
  have c: "store_after ?db
      (show_admin_interface db_get_all_users db_delete_user ?db 1 biomedical_session) = ?db"
    using inst [where s = biomedical_session and pressed = 1, THEN conjunct2, THEN conjunct1]
      only
    by simp
  show ?thesis
    by (intro conjI) (rule a b c)+
qed

section \<open>Properties of the archive filters\<close>

lemma date_le_refl: "date_le d d"
  by (cases d) simp

text \<open>
  C8. The archive filters keep exactly the rows that pass every filter, in their order:
  a field with an empty selection filters nothing, a field with selected values keeps
  the rows whose value is one of them, and a chosen start or end date keeps the rows
  whose date is on or after, respectively on or before, that date (a row dated on the
  bound itself is kept). The inventory tab has the two selections of state and
  location and no date bound.
\<close>

theorem archive_filter_membership:
  "archive_steril_filter operators medecins states start_date end_date steril_reports
     = filter (\<lambda>r. (operators = [] \<or> nom_operateur r \<in> set operators)
          \<and> (medecins = [] \<or> col_medecin_responsable r \<in> set medecins)
          \<and> (states = [] \<or> col_etat_endoscope r \<in> set states)
          \<and> (case start_date of None \<Rightarrow> True
              | Some d \<Rightarrow> date_le d (col_date_desinfection r))
          \<and> (case end_date of None \<Rightarrow> True
              | Some d \<Rightarrow> date_le (col_date_desinfection r) d)) steril_reports
   \<and> (r \<in> set (archive_steril_filter operators medecins states start_date end_date
          steril_reports)
      \<longleftrightarrow> r \<in> set steril_reports
          \<and> (operators = [] \<or> nom_operateur r \<in> set operators)
          \<and> (medecins = [] \<or> col_medecin_responsable r \<in> set medecins)
          \<and> (states = [] \<or> col_etat_endoscope r \<in> set states)
          \<and> (case start_date of None \<Rightarrow> True
              | Some d \<Rightarrow> date_le d (col_date_desinfection r))
          \<and> (case end_date of None \<Rightarrow> True
              | Some d \<Rightarrow> date_le (col_date_desinfection r) d))
   \<and> (e \<in> set (archive_inventory_filter inv_states inv_locs inventory_df)
      \<longleftrightarrow> e \<in> set inventory_df
          \<and> (inv_states = [] \<or> etat e \<in> set inv_states)
          \<and> (inv_locs = [] \<or> localisation e \<in> set inv_locs))
   \<and> date_le d d"
proof -
  have a: "archive_steril_filter operators medecins states start_date end_date steril_reports
     = filter (\<lambda>r. (operators = [] \<or> nom_operateur r \<in> set operators)
          \<and> (medecins = [] \<or> col_medecin_responsable r \<in> set medecins)
          \<and> (states = [] \<or> col_etat_endoscope r \<in> set states)
          \<and> (case start_date of None \<Rightarrow> True
              | Some d \<Rightarrow> date_le d (col_date_desinfection r))
          \<and> (case end_date of None \<Rightarrow> True
              | Some d \<Rightarrow> date_le (col_date_desinfection r) d)) steril_reports"
    unfolding archive_steril_filter_def Let_def
    by (cases start_date; cases end_date) (auto intro: filter_cong)
  have b: "e \<in> set (archive_inventory_filter inv_states inv_locs inventory_df)
      \<longleftrightarrow> e \<in> set inventory_df
          \<and> (inv_states = [] \<or> etat e \<in> set inv_states)
          \<and> (inv_locs = [] \<or> localisation e \<in> set inv_locs)"
    unfolding archive_inventory_filter_def Let_def by auto
  show ?thesis
    unfolding a using b date_le_refl by auto
qed

theorem archive_filter_membership_witness:
  "archive_steril_filter [''alice'', ''bob''] [] [''en panne''] (Some (2025, 6, 21)) None
      [report_a, report_b, report_c]
     = [report_b]"
proof -
  have "archive_steril_filter [''alice'', ''bob''] [] [''en panne''] (Some (2025, 6, 21)) None
      [report_a, report_b, report_c]
     = filter (\<lambda>r. nom_operateur r \<in> set [''alice'', ''bob'']
          \<and> col_etat_endoscope r \<in> set [''en panne'']
          \<and> date_le (2025, 6, 21) (col_date_desinfection r)) [report_a, report_b, report_c]"
    using archive_filter_membership
      [where operators = "[''alice'', ''bob'']" and medecins = "[]"
        and states = "[''en panne'']" and start_date = "Some (2025, 6, 21)"
        and end_date = None and steril_reports = "[report_a, report_b, report_c]"]
    by simp
  also have "\<dots> = [report_b]"
    by (simp add: report_a_def report_b_def report_c_def)
  finally show ?thesis .
qed

section \<open>Properties of the rules modelled from the spec\<close>

text \<open>
  C2. Against the rule as the spec words it: \<open>admin\<close> and \<open>biomedical\<close> may modify any
  report whoever owns it; \<open>sterilisation\<close> may modify a report exactly when the acting
  user is its owner; any other role may modify none.
\<close>

theorem can_modify_rule:
  "can_modify ''admin'' report_owner acting
   \<and> can_modify ''biomedical'' report_owner acting
   \<and> (can_modify ''sterilisation'' report_owner acting \<longleftrightarrow> acting = report_owner)
   \<and> (role_name \<notin> {''admin'', ''biomedical'', ''sterilisation''}
      \<longrightarrow> \<not> can_modify role_name report_owner acting)
   \<and> can_modify ''sterilisation'' ''alice'' ''alice''
   \<and> \<not> can_modify ''sterilisation'' ''alice'' ''bob''
   \<and> can_modify ''biomedical'' ''alice'' ''bob''"
proof -
  have a: "can_modify ''admin'' report_owner acting"
    by (simp add: can_modify_def)
  have b: "can_modify ''biomedical'' report_owner acting"
    by (simp add: can_modify_def)
  have c: "\<And>ow ac. can_modify ''sterilisation'' ow ac \<longleftrightarrow> ac = ow"
    by (simp add: can_modify_def)
  have d: "role_name \<notin> {''admin'', ''biomedical'', ''sterilisation''}
      \<longrightarrow> \<not> can_modify role_name report_owner acting"
    unfolding can_modify_def by (simp only: insert_iff empty_iff de_Morgan_disj simp_thms if_False
        split: if_splits) simp
  have e: "''bob'' \<noteq> ''alice''" by simp
  from a b c [of report_owner acting] c [of "''alice''" "''alice''"]
    c [of "''alice''" "''bob''"] d e
  show ?thesis
    unfolding can_modify_def by (simp only: simp_thms if_True)
qed


theorem can_modify_rule_witness:
  "\<not> can_modify ''visiteur'' ''alice'' ''alice''"
proof -
  have n: "''visiteur'' \<notin> {''admin'', ''biomedical'', ''sterilisation''}"
    by simp
  have "''visiteur'' \<notin> {''admin'', ''biomedical'', ''sterilisation''}
      \<longrightarrow> \<not> can_modify ''visiteur'' ''alice'' ''alice''"
    by (rule can_modify_rule [where role_name = "''visiteur''" and report_owner = "''alice''"
        and acting = "''alice''", THEN conjunct2, THEN conjunct2, THEN conjunct2,
        THEN conjunct1])
  with n show ?thesis by (rule rev_mp)
qed

text \<open>
  C6. Against the rule as the spec words it: for a store with at least one endoscope
  the result is the exact quotient \<open>100 * broken_count / total_count\<close> with the two
  counts, and for the empty store it is \<open>(0, 0, 0)\<close>; no rounding takes place. Ten
  endoscopes of which six are broken give \<open>(60, 6, 10)\<close>.
\<close>

theorem malfunction_percentage_rule:
  "(store \<noteq> [] \<longrightarrow>
      get_malfunction_percentage store
        = (100 * of_nat (length (filter (\<lambda>e. etat e = ''en panne'') store))
             / of_nat (length store),
           length (filter (\<lambda>e. etat e = ''en panne'') store), length store))
   \<and> get_malfunction_percentage [] = (0, 0, 0)
   \<and> (length store = 10 \<and> length (filter (\<lambda>e. etat e = ''en panne'') store) = 6
      \<longrightarrow> get_malfunction_percentage store = (60, 6, 10))"
  by (simp add: get_malfunction_percentage_def Let_def)

theorem malfunction_percentage_rule_witness:
  "get_malfunction_percentage
      (replicate 6 broken_endoscope @ replicate 4 example_endoscope) = (60, 6, 10)"
proof -
  let ?store = "replicate 6 broken_endoscope @ replicate 4 example_endoscope"
  have b: "etat broken_endoscope = ''en panne''"
    by (simp add: broken_endoscope_def)
  have f: "etat example_endoscope \<noteq> ''en panne''"
    by (simp add: example_endoscope_def)
  have l: "length ?store = 10" by simp
  have k: "length (filter (\<lambda>e. etat e = ''en panne'') ?store) = 6"
    using b f by simp
  show ?thesis
    using malfunction_percentage_rule [where store = ?store] l k by blast
qed

end
